theory Spec2Isabelle
  imports Main "HOL-Library.Word" "HOL-Library.Sublist"
begin

section \<open>Errors\<close>

text \<open>
  A Go \<^verbatim>\<open>error\<close> value that is not nil. \<open>TError\<close> is a \<^verbatim>\<open>*terror.Error\<close>, the
  structured error of the engine; \<open>Opaque\<close> is an error of any other dynamic type;
  \<open>WithStack\<close> and \<open>WithMessage\<close> are the wrappers of the \<^verbatim>\<open>errors\<close> package. A nil
  error is \<open>None\<close> of \<open>'t error option\<close>.
\<close>

datatype 't error =
    TError 't
  | Opaque string
  | WithStack "'t error"
  | WithMessage string "'t error"

text \<open>\<^verbatim>\<open>errors.Cause\<close>: unwrap until an error that wraps nothing.\<close>

fun errors_Cause :: "'t error \<Rightarrow> 't error" where
  "errors_Cause (WithStack e) = errors_Cause e"
| "errors_Cause (WithMessage m e) = errors_Cause e"
| "errors_Cause (TError t) = TError t"
| "errors_Cause (Opaque s) = Opaque s"

fun errors_HasStack :: "'t error \<Rightarrow> bool" where
  "errors_HasStack (WithStack e) = True"
| "errors_HasStack (WithMessage m e) = errors_HasStack e"
| "errors_HasStack (TError t) = False"
| "errors_HasStack (Opaque s) = False"

text \<open>\<^verbatim>\<open>errors.Trace\<close> on an error that is not nil: add a stack unless there is one.\<close>

definition errors_Trace :: "'t error \<Rightarrow> 't error" where
  "errors_Trace e = (if errors_HasStack e then e else WithStack e)"

text \<open>
  The \<^verbatim>\<open>mysql.SQLError\<close> that \<^verbatim>\<open>terror.ToSQLError\<close> returns. The type is declared
  outside this file; its code is an unsigned 16-bit integer.
\<close>

record SQLError =
  Code :: "16 word"
  Message :: string

section \<open>The engine the harness drives\<close>

type_synonym stmtID = "32 word"

text \<open>
  Everything the harness calls and does not define: the methods of the session
  (\<^verbatim>\<open>session.Session\<close>), of its statement context, of a record set, and the package
  functions of \<^verbatim>\<open>session\<close>, \<^verbatim>\<open>types\<close>, \<^verbatim>\<open>terror\<close> and \<^verbatim>\<open>fmt\<close>. The harness is written
  against interfaces, so the engine is a parameter: each call takes the state of the
  world \<open>'e\<close> (store, sessions, statement contexts, record sets) and returns its
  results and the world after it. Go's multiple results are tuples; the error of a result
  is \<open>None\<close> for nil, a record set or a session is \<open>None\<close> for nil.

  \<open>'h\<close> is a session, \<open>'n\<close> a parsed statement, \<open>'c\<close> a pointer to a statement
  context, \<open>'w\<close> a warning, \<open>'r\<close> a record set, \<open>'t\<close> a structured error, \<open>'a\<close> an
  argument of \<^verbatim>\<open>Exec\<close>, \<open>'d\<close> a datum, \<open>'k\<close> a store.

  \<open>StmtCtx C se\<close> is \<^verbatim>\<open>se.GetSessionVars().StmtCtx\<close>. \<open>PrepareStmt\<close> returns the
  statement id and the error (the harness discards the two results between them);
  \<open>GetRows4Test\<close> returns the error only (the harness discards the rows).
  \<open>Sprint_args\<close> formats the argument list as \<^verbatim>\<open>%v\<close> does.
\<close>

record ('e, 'h, 'n, 'c, 'w, 'r, 't, 'a, 'd, 'k) Engine =
  StmtCtx :: "'h \<Rightarrow> 'e \<Rightarrow> 'c \<times> 'e"
  GetWarnings :: "'c \<Rightarrow> 'e \<Rightarrow> 'w list \<times> 'e"
  AppendError :: "'c \<Rightarrow> 't error \<Rightarrow> 'e \<Rightarrow> 'e"
  AppendWarnings :: "'c \<Rightarrow> 'w list \<Rightarrow> 'e \<Rightarrow> 'e"
  Parse :: "'h \<Rightarrow> string \<Rightarrow> 'e \<Rightarrow> ('n list \<times> 't error option) \<times> 'e"
  ExecuteStmt :: "'h \<Rightarrow> 'n \<Rightarrow> 'e \<Rightarrow> ('r option \<times> 't error option) \<times> 'e"
  PrepareStmt :: "'h \<Rightarrow> string \<Rightarrow> 'e \<Rightarrow> (stmtID \<times> 't error option) \<times> 'e"
  NewDatum :: "'a \<Rightarrow> 'd"
  ExecutePreparedStmt ::
    "'h \<Rightarrow> stmtID \<Rightarrow> 'd list \<Rightarrow> 'e \<Rightarrow> ('r option \<times> 't error option) \<times> 'e"
  DropPreparedStmt :: "'h \<Rightarrow> stmtID \<Rightarrow> 'e \<Rightarrow> 't error option \<times> 'e"
  CreateSession4Test :: "'k \<Rightarrow> 'e \<Rightarrow> ('h option \<times> 't error option) \<times> 'e"
  SetConnectionID :: "'h \<Rightarrow> 64 word \<Rightarrow> 'e \<Rightarrow> 'e"
  GetRows4Test :: "'h option \<Rightarrow> 'r \<Rightarrow> 'e \<Rightarrow> 't error option \<times> 'e"
  Close :: "'r \<Rightarrow> 'e \<Rightarrow> 't error option \<times> 'e"
  ResultSetToStringSlice ::
    "'h option \<Rightarrow> 'r \<Rightarrow> 'e \<Rightarrow> (string list list \<times> 't error option) \<times> 'e"
  ToSQLError :: "'t \<Rightarrow> SQLError"
  Sprint_args :: "'a list \<Rightarrow> string"

section \<open>The harness\<close>

text \<open>
  \<^verbatim>\<open>TestKit\<close>: the store and the session. The fields \<^verbatim>\<open>require\<close>, \<^verbatim>\<open>assert\<close> and \<^verbatim>\<open>t\<close>
  are the test's handle; what they do is in the outcome of a call.
\<close>

record ('k, 'h) TestKit =
  store :: 'k
  session :: "'h option"

text \<open>
  How a call of the harness ends: it returns, a \<^verbatim>\<open>require\<close> assertion fails the test
  at once (\<^verbatim>\<open>t.FailNow\<close>), or the Go runtime panics (nil dereference, index or slice
  bound out of range).
\<close>

datatype 'a outcome = Returned 'a | FailNow | Panic

text \<open>\<^verbatim>\<open>Result\<close>: the rows as strings and the comment for failure messages.\<close>

record Result =
  rows :: "string list list"
  comment :: string

subsection \<open>Exec\<close>

text \<open>
  The loop \<^verbatim>\<open>for i, stmt := range stmts\<close> of \<^verbatim>\<open>Exec\<close>: \<open>Inl\<close> is the early return
  of the function from inside the loop, \<open>Inr\<close> the value of \<^verbatim>\<open>rs0\<close> when the loop
  ends.
\<close>

fun Exec_loop ::
  "('e, 'h, 'n, 'c, 'w, 'r, 't, 'a, 'd, 'k) Engine \<Rightarrow> 'h \<Rightarrow> 'n list \<Rightarrow> nat \<Rightarrow> 'r option \<Rightarrow> 'e
    \<Rightarrow> (('r option \<times> 't error option) + 'r option) \<times> 'e" where
  "Exec_loop C se [] i rs0 e = (Inr rs0, e)"
| "Exec_loop C se (stmt # stmts) i rs0 e =
     (let ((rs, err), e1) = ExecuteStmt C se stmt e;
          rs0' = (if i = 0 then rs else rs0)
      in case err of
           Some er \<Rightarrow>
             (let (sc, e2) = StmtCtx C se e1;
                  e3 = AppendError C sc er e2
              in (Inl (None, Some (errors_Trace er)), e3))
         | None \<Rightarrow> Exec_loop C se stmts (i + 1) rs0' e1)"

definition Exec ::
  "('e, 'h, 'n, 'c, 'w, 'r, 't, 'a, 'd, 'k) Engine \<Rightarrow> ('k, 'h) TestKit \<Rightarrow> string \<Rightarrow> 'a list \<Rightarrow> 'e
    \<Rightarrow> ('r option \<times> 't error option) outcome \<times> 'e" where
  "Exec C tk sql args e =
     (case session tk of
        None \<Rightarrow> (Panic, e)
      | Some se \<Rightarrow>
          if length args = 0 then
            (let (sc, e1) = StmtCtx C se e;
                 (prevWarns, e2) = GetWarnings C sc e1;
                 ((stmts, err), e3) = Parse C se sql e2
             in case err of
                  Some er \<Rightarrow> (Returned (None, Some (errors_Trace er)), e3)
                | None \<Rightarrow>
                    (let (warns, e4) = GetWarnings C sc e3
                     in if length warns < length prevWarns then (Panic, e4)
                        else
                          (let parserWarns = drop (length prevWarns) warns
                           in case Exec_loop C se stmts 0 None e4 of
                                (Inl ret, e5) \<Rightarrow> (Returned ret, e5)
                              | (Inr rs0, e5) \<Rightarrow>
                                  if length parserWarns > 0 then
                                    (let (sc', e6) = StmtCtx C se e5;
                                         e7 = AppendWarnings C sc' parserWarns e6
                                     in (Returned (rs0, None), e7))
                                  else (Returned (rs0, None), e5))))
          else
            (let ((stmtID, err), e1) = PrepareStmt C se sql e
             in case err of
                  Some er \<Rightarrow> (Returned (None, Some (errors_Trace er)), e1)
                | None \<Rightarrow>
                    (let params = map (NewDatum C) args;
                         ((rs, err), e2) = ExecutePreparedStmt C se stmtID params e1
                     in case err of
                          Some er \<Rightarrow> (Returned (None, Some (errors_Trace er)), e2)
                        | None \<Rightarrow>
                            (let (err, e3) = DropPreparedStmt C se stmtID e2
                             in case err of
                                  Some er \<Rightarrow> (Returned (None, Some (errors_Trace er)), e3)
                                | None \<Rightarrow> (Returned (rs, None), e3)))))"

subsection \<open>Queries\<close>

text \<open>\<^verbatim>\<open>ResultSetToResultWithCtx\<close>; the context is not used by the model.\<close>

definition ResultSetToResultWithCtx ::
  "('e, 'h, 'n, 'c, 'w, 'r, 't, 'a, 'd, 'k) Engine \<Rightarrow> ('k, 'h) TestKit \<Rightarrow> 'r \<Rightarrow> string \<Rightarrow> 'e
    \<Rightarrow> Result outcome \<times> 'e" where
  "ResultSetToResultWithCtx C tk rs cmt e =
     (let ((rws, err), e1) = ResultSetToStringSlice C (session tk) rs e
      in case err of
           Some er \<Rightarrow> (FailNow, e1)
         | None \<Rightarrow> (Returned \<lparr>rows = rws, comment = cmt\<rparr>, e1))"

definition ResultSetToResult ::
  "('e, 'h, 'n, 'c, 'w, 'r, 't, 'a, 'd, 'k) Engine \<Rightarrow> ('k, 'h) TestKit \<Rightarrow> 'r \<Rightarrow> string \<Rightarrow> 'e
    \<Rightarrow> Result outcome \<times> 'e" where
  "ResultSetToResult C tk rs cmt e = ResultSetToResultWithCtx C tk rs cmt e"

definition MustQuery ::
  "('e, 'h, 'n, 'c, 'w, 'r, 't, 'a, 'd, 'k) Engine \<Rightarrow> ('k, 'h) TestKit \<Rightarrow> string \<Rightarrow> 'a list \<Rightarrow> 'e
    \<Rightarrow> Result outcome \<times> 'e" where
  "MustQuery C tk sql args e =
     (let cmt = ''sql:'' @ sql @ '', args:'' @ Sprint_args C args;
          (r, e1) = Exec C tk sql args e
      in case r of
           Panic \<Rightarrow> (Panic, e1)
         | FailNow \<Rightarrow> (FailNow, e1)
         | Returned (rs, err) \<Rightarrow>
             (case err of
                Some er \<Rightarrow> (FailNow, e1)
              | None \<Rightarrow>
                  (case rs of
                     None \<Rightarrow> (FailNow, e1)
                   | Some rs' \<Rightarrow> ResultSetToResult C tk rs' cmt e1)))"

definition QueryToErr ::
  "('e, 'h, 'n, 'c, 'w, 'r, 't, 'a, 'd, 'k) Engine \<Rightarrow> ('k, 'h) TestKit \<Rightarrow> string \<Rightarrow> 'a list \<Rightarrow> 'e
    \<Rightarrow> 't error option outcome \<times> 'e" where
  "QueryToErr C tk sql args e =
     (let (r, e1) = Exec C tk sql args e
      in case r of
           Panic \<Rightarrow> (Panic, e1)
         | FailNow \<Rightarrow> (FailNow, e1)
         | Returned (res, err) \<Rightarrow>
             (case err of
                Some er \<Rightarrow> (FailNow, e1)
              | None \<Rightarrow>
                  (case res of
                     None \<Rightarrow> (FailNow, e1)
                   | Some res' \<Rightarrow>
                       (let (resErr, e2) = GetRows4Test C (session tk) res' e1;
                            (closeErr, e3) = Close C res' e2
                        in case closeErr of
                             Some er \<Rightarrow> (FailNow, e3)
                           | None \<Rightarrow> (Returned resErr, e3)))))"

text \<open>\<^verbatim>\<open>strings.Contains(s, substr)\<close>: \<open>substr\<close> is a contiguous part of \<open>s\<close>.\<close>

definition strings_Contains :: "string \<Rightarrow> string \<Rightarrow> bool" where
  "strings_Contains s substr = sublist substr s"

text \<open>
  The loop of \<^verbatim>\<open>HasPlan\<close> over the rows: \<^verbatim>\<open>rs.rows[i][0]\<close> panics on a row with no
  column.
\<close>

fun HasPlan_loop :: "string list list \<Rightarrow> string \<Rightarrow> bool outcome" where
  "HasPlan_loop [] plan = Returned False"
| "HasPlan_loop (row # rws) plan =
     (if length row \<le> 0 then Panic
      else if strings_Contains (row ! 0) plan then Returned True
      else HasPlan_loop rws plan)"

definition HasPlan ::
  "('e, 'h, 'n, 'c, 'w, 'r, 't, 'a, 'd, 'k) Engine \<Rightarrow> ('k, 'h) TestKit \<Rightarrow> string \<Rightarrow> string
    \<Rightarrow> 'a list \<Rightarrow> 'e \<Rightarrow> bool outcome \<times> 'e" where
  "HasPlan C tk sql plan args e =
     (let (r, e1) = MustQuery C tk (''explain '' @ sql) args e
      in case r of
           Panic \<Rightarrow> (Panic, e1)
         | FailNow \<Rightarrow> (FailNow, e1)
         | Returned rs \<Rightarrow> (HasPlan_loop (rows rs) plan, e1))"

text \<open>
  The loop of \<^verbatim>\<open>MustUseIndex\<close>: \<^verbatim>\<open>rs.rows[i][3]\<close> panics on a row with fewer than
  four columns.
\<close>

fun MustUseIndex_loop :: "string list list \<Rightarrow> string \<Rightarrow> bool outcome" where
  "MustUseIndex_loop [] index = Returned False"
| "MustUseIndex_loop (row # rws) index =
     (if length row \<le> 3 then Panic
      else if strings_Contains (row ! 3) (''index:'' @ index) then Returned True
      else MustUseIndex_loop rws index)"

definition MustUseIndex ::
  "('e, 'h, 'n, 'c, 'w, 'r, 't, 'a, 'd, 'k) Engine \<Rightarrow> ('k, 'h) TestKit \<Rightarrow> string \<Rightarrow> string
    \<Rightarrow> 'a list \<Rightarrow> 'e \<Rightarrow> bool outcome \<times> 'e" where
  "MustUseIndex C tk sql index args e =
     (let (r, e1) = MustQuery C tk (''explain '' @ sql) args e
      in case r of
           Panic \<Rightarrow> (Panic, e1)
         | FailNow \<Rightarrow> (FailNow, e1)
         | Returned rs \<Rightarrow> (MustUseIndex_loop (rows rs) index, e1))"

text \<open>
  The rows of a result set form a table: every row has the same number of columns
  (one for each field of the record set).
\<close>

definition rectangular :: "string list list \<Rightarrow> bool" where
  "rectangular rws = (\<forall>r\<in>set rws. \<forall>r'\<in>set rws. length r = length r')"

subsection \<open>Error codes\<close>

text \<open>
  \<^verbatim>\<open>MustGetErrCode\<close>. \<^verbatim>\<open>errCode\<close> is a Go \<^verbatim>\<open>int\<close> (64 bits); \<^verbatim>\<open>int(sqlErr.Code)\<close>
  extends the unsigned 16-bit code. The type assertion holds when the cause is a
  \<open>TError\<close>.
\<close>

definition MustGetErrCode ::
  "('e, 'h, 'n, 'c, 'w, 'r, 't, 'a, 'd, 'k) Engine \<Rightarrow> ('k, 'h) TestKit \<Rightarrow> string \<Rightarrow> 64 word \<Rightarrow> 'e
    \<Rightarrow> unit outcome \<times> 'e" where
  "MustGetErrCode C tk sql errCode e =
     (let (r, e1) = Exec C tk sql [] e
      in case r of
           Panic \<Rightarrow> (Panic, e1)
         | FailNow \<Rightarrow> (FailNow, e1)
         | Returned (rs, err) \<Rightarrow>
             (case err of
                None \<Rightarrow> (FailNow, e1)
              | Some er \<Rightarrow>
                  (let originErr = errors_Cause er
                   in case originErr of
                        TError tErr \<Rightarrow>
                          (let sqlErr = ToSQLError C tErr
                           in if errCode = ucast (Code sqlErr) then (Returned (), e1)
                              else (FailNow, e1))
                      | Opaque s \<Rightarrow> (FailNow, e1)
                      | WithStack x \<Rightarrow> (FailNow, e1)
                      | WithMessage m x \<Rightarrow> (FailNow, e1))))"

subsection \<open>Sessions and connection identifiers\<close>

text \<open>
  The package variable \<^verbatim>\<open>testKitIDGenerator\<close> is the argument \<open>gen\<close>, returned
  updated; \<^verbatim>\<open>Inc\<close> adds one (modulo \<open>2 ^ 64\<close>) and returns the new value. In
  \<^verbatim>\<open>se.SetConnectionID(testKitIDGenerator.Inc())\<close> the argument is evaluated before
  the call on \<^verbatim>\<open>se\<close>.
\<close>

definition newSession ::
  "('e, 'h, 'n, 'c, 'w, 'r, 't, 'a, 'd, 'k) Engine \<Rightarrow> 'k \<Rightarrow> 64 word \<Rightarrow> 'e
    \<Rightarrow> 'h outcome \<times> 64 word \<times> 'e" where
  "newSession C st gen e =
     (let ((se, err), e1) = CreateSession4Test C st e
      in case err of
           Some er \<Rightarrow> (FailNow, gen, e1)
         | None \<Rightarrow>
             (let gen' = gen + 1
              in case se of
                   None \<Rightarrow> (Panic, gen', e1)
                 | Some h \<Rightarrow> (Returned h, gen', SetConnectionID C h gen' e1)))"

definition NewTestKit ::
  "('e, 'h, 'n, 'c, 'w, 'r, 't, 'a, 'd, 'k) Engine \<Rightarrow> 'k \<Rightarrow> 64 word \<Rightarrow> 'e
    \<Rightarrow> ('k, 'h) TestKit outcome \<times> 64 word \<times> 'e" where
  "NewTestKit C st gen e =
     (case newSession C st gen e of
        (Returned h, gen', e1) \<Rightarrow> (Returned \<lparr>store = st, session = Some h\<rparr>, gen', e1)
      | (FailNow, gen', e1) \<Rightarrow> (FailNow, gen', e1)
      | (Panic, gen', e1) \<Rightarrow> (Panic, gen', e1))"

definition RefreshSession ::
  "('e, 'h, 'n, 'c, 'w, 'r, 't, 'a, 'd, 'k) Engine \<Rightarrow> ('k, 'h) TestKit \<Rightarrow> 64 word \<Rightarrow> 'e
    \<Rightarrow> ('k, 'h) TestKit outcome \<times> 64 word \<times> 'e" where
  "RefreshSession C tk gen e =
     (case newSession C (store tk) gen e of
        (Returned h, gen', e1) \<Rightarrow> (Returned (tk\<lparr>session := Some h\<rparr>), gen', e1)
      | (FailNow, gen', e1) \<Rightarrow> (FailNow, gen', e1)
      | (Panic, gen', e1) \<Rightarrow> (Panic, gen', e1))"

definition SetSession :: "('k, 'h) TestKit \<Rightarrow> 'h option \<Rightarrow> ('k, 'h) TestKit" where
  "SetSession tk se = tk\<lparr>session := se\<rparr>"

definition RefreshConnectionID ::
  "('e, 'h, 'n, 'c, 'w, 'r, 't, 'a, 'd, 'k) Engine \<Rightarrow> ('k, 'h) TestKit \<Rightarrow> 64 word \<Rightarrow> 'e
    \<Rightarrow> 64 word \<times> 'e" where
  "RefreshConnectionID C tk gen e =
     (case session tk of
        None \<Rightarrow> (gen, e)
      | Some h \<Rightarrow> (let gen' = gen + 1 in (gen', SetConnectionID C h gen' e)))"

section \<open>Observing the calls\<close>

text \<open>
  A call of the harness on the engine, with its arguments and its results. The log
  of a run is the list of the calls made, in order.
\<close>

datatype ('h, 'n, 'c, 'w, 'r, 't, 'd, 'k) event =
    EvStmtCtx 'h 'c
  | EvGetWarnings 'c "'w list"
  | EvAppendError 'c "'t error"
  | EvAppendWarnings 'c "'w list"
  | EvParse 'h string "'n list" "'t error option"
  | EvExecuteStmt 'h 'n "'r option" "'t error option"
  | EvPrepareStmt 'h string stmtID "'t error option"
  | EvExecutePreparedStmt 'h stmtID "'d list" "'r option" "'t error option"
  | EvDropPreparedStmt 'h stmtID "'t error option"
  | EvCreateSession4Test 'k "'h option" "'t error option"
  | EvSetConnectionID 'h "64 word"
  | EvGetRows4Test "'h option" 'r "'t error option"
  | EvClose 'r "'t error option"
  | EvResultSetToStringSlice "'h option" 'r "string list list" "'t error option"

text \<open>
  \<open>spy C\<close> is the engine \<open>C\<close> with a log beside its world: every call does what it
  does in \<open>C\<close> and adds its event at the end of the log. What the harness does on
  \<open>spy C\<close> is what it does on \<open>C\<close>, with the calls recorded.
\<close>

definition spy ::
  "('e, 'h, 'n, 'c, 'w, 'r, 't, 'a, 'd, 'k) Engine
    \<Rightarrow> ('e \<times> ('h, 'n, 'c, 'w, 'r, 't, 'd, 'k) event list, 'h, 'n, 'c, 'w, 'r, 't, 'a, 'd, 'k) Engine" where
  "spy C = \<lparr>
     StmtCtx = (\<lambda>se (e, l). let (c, e') = StmtCtx C se e in (c, (e', l @ [EvStmtCtx se c]))),
     GetWarnings = (\<lambda>c (e, l). let (ws, e') = GetWarnings C c e in (ws, (e', l @ [EvGetWarnings c ws]))),
     AppendError = (\<lambda>c er (e, l). (AppendError C c er e, l @ [EvAppendError c er])),
     AppendWarnings = (\<lambda>c ws (e, l). (AppendWarnings C c ws e, l @ [EvAppendWarnings c ws])),
     Parse = (\<lambda>se sql (e, l).
       let ((stmts, err), e') = Parse C se sql e
       in ((stmts, err), (e', l @ [EvParse se sql stmts err]))),
     ExecuteStmt = (\<lambda>se stmt (e, l).
       let ((rs, err), e') = ExecuteStmt C se stmt e
       in ((rs, err), (e', l @ [EvExecuteStmt se stmt rs err]))),
     PrepareStmt = (\<lambda>se sql (e, l).
       let ((sid, err), e') = PrepareStmt C se sql e
       in ((sid, err), (e', l @ [EvPrepareStmt se sql sid err]))),
     NewDatum = NewDatum C,
     ExecutePreparedStmt = (\<lambda>se sid ps (e, l).
       let ((rs, err), e') = ExecutePreparedStmt C se sid ps e
       in ((rs, err), (e', l @ [EvExecutePreparedStmt se sid ps rs err]))),
     DropPreparedStmt = (\<lambda>se sid (e, l).
       let (err, e') = DropPreparedStmt C se sid e
       in (err, (e', l @ [EvDropPreparedStmt se sid err]))),
     CreateSession4Test = (\<lambda>st (e, l).
       let ((se, err), e') = CreateSession4Test C st e
       in ((se, err), (e', l @ [EvCreateSession4Test st se err]))),
     SetConnectionID = (\<lambda>se cid (e, l). (SetConnectionID C se cid e, l @ [EvSetConnectionID se cid])),
     GetRows4Test = (\<lambda>se rs (e, l).
       let (err, e') = GetRows4Test C se rs e
       in (err, (e', l @ [EvGetRows4Test se rs err]))),
     Close = (\<lambda>rs (e, l).
       let (err, e') = Close C rs e
       in (err, (e', l @ [EvClose rs err]))),
     ResultSetToStringSlice = (\<lambda>se rs (e, l).
       let ((rws, err), e') = ResultSetToStringSlice C se rs e
       in ((rws, err), (e', l @ [EvResultSetToStringSlice se rs rws err]))),
     ToSQLError = ToSQLError C,
     Sprint_args = Sprint_args C \<rparr>"

text \<open>The calls of one kind in a log, in order.\<close>

fun is_ExecuteStmt :: "('h, 'n, 'c, 'w, 'r, 't, 'd, 'k) event \<Rightarrow> bool" where
  "is_ExecuteStmt (EvExecuteStmt se stmt rs err) = True"
| "is_ExecuteStmt ev = False"

fun is_DropPreparedStmt :: "('h, 'n, 'c, 'w, 'r, 't, 'd, 'k) event \<Rightarrow> bool" where
  "is_DropPreparedStmt (EvDropPreparedStmt se sid err) = True"
| "is_DropPreparedStmt ev = False"

fun is_AppendWarnings :: "('h, 'n, 'c, 'w, 'r, 't, 'd, 'k) event \<Rightarrow> bool" where
  "is_AppendWarnings (EvAppendWarnings c ws) = True"
| "is_AppendWarnings ev = False"

fun is_Close :: "('h, 'n, 'c, 'w, 'r, 't, 'd, 'k) event \<Rightarrow> bool" where
  "is_Close (EvClose rs err) = True"
| "is_Close ev = False"

text \<open>The connection identifiers that a log assigns, in order.\<close>

fun assigned_ids :: "('h, 'n, 'c, 'w, 'r, 't, 'd, 'k) event list \<Rightarrow> 64 word list" where
  "assigned_ids [] = []"
| "assigned_ids (EvSetConnectionID se cid # l) = cid # assigned_ids l"
| "assigned_ids (ev # l) = assigned_ids l"

text \<open>
  The calls of \<^verbatim>\<open>ExecuteStmt\<close> on the statements \<open>stmts\<close>, in order, with the given
  results.
\<close>

definition ExecuteStmt_events ::
  "'h \<Rightarrow> 'n list \<Rightarrow> ('r option \<times> 't error option) list \<Rightarrow> ('h, 'n, 'c, 'w, 'r, 't, 'd, 'k) event list" where
  "ExecuteStmt_events se stmts res = map2 (\<lambda>stmt (rs, err). EvExecuteStmt se stmt rs err) stmts res"

subsection \<open>A test process\<close>

text \<open>
  The three operations that assign a connection identifier, called by the tests of
  one process in any order on any harness. A test that fails or panics ends; the
  process and the counter go on.
\<close>

datatype ('k, 'h) call =
    CallNewTestKit 'k
  | CallRefreshSession "('k, 'h) TestKit"
  | CallRefreshConnectionID "('k, 'h) TestKit"

fun run_call ::
  "('e, 'h, 'n, 'c, 'w, 'r, 't, 'a, 'd, 'k) Engine \<Rightarrow> ('k, 'h) call \<Rightarrow> 64 word \<times> 'e \<Rightarrow> 64 word \<times> 'e" where
  "run_call C (CallNewTestKit st) (gen, e) = snd (NewTestKit C st gen e)"
| "run_call C (CallRefreshSession tk) (gen, e) = snd (RefreshSession C tk gen e)"
| "run_call C (CallRefreshConnectionID tk) (gen, e) = RefreshConnectionID C tk gen e"

definition run_calls ::
  "('e, 'h, 'n, 'c, 'w, 'r, 't, 'a, 'd, 'k) Engine \<Rightarrow> ('k, 'h) call list \<Rightarrow> 64 word \<times> 'e \<Rightarrow> 64 word \<times> 'e" where
  "run_calls C calls s = fold (run_call C) calls s"

section \<open>A small engine for concrete runs\<close>

text \<open>
  An engine simple enough to run by hand. A statement is its text and a record set
  is the text of the statement that made it; the session has one statement context
  (pointer \<open>0\<close>). \<open>Parse\<close> splits the text at semicolons, fails on \<open>''syntax''\<close> and
  warns when the text has an exclamation mark. \<open>ExecuteStmt\<close> starts a fresh
  statement context (no warnings) and fails on the statement \<open>''fail''\<close>. A prepared
  statement with the text \<open>''fail ?''\<close> fails when executed, one with the text
  \<open>''keep ?''\<close> cannot be dropped. The rows of \<open>''midstream''\<close> fail while they are
  read, \<open>''unclosable''\<close> fails to close.
\<close>

record toy_world =
  warnings :: "string list"
  errs :: "nat error list"
  prepared :: "(stmtID \<times> string) list"
  last_stmtID :: stmtID
  sessions :: nat
  conn_ids :: "(nat \<times> 64 word) list"

fun split_stmts :: "string \<Rightarrow> string \<Rightarrow> string list" where
  "split_stmts acc [] = (if acc = [] then [] else [acc])"
| "split_stmts acc (c # cs) =
     (if c = CHR '';'' then acc # split_stmts [] cs else split_stmts (acc @ [c]) cs)"

definition toy_rows :: "string \<Rightarrow> string list list" where
  "toy_rows rs =
     (if rs = ''explain q'' then
        [[''Reader'', ''10'', ''root'', [], ''data:Scan''],
         [''IndexScan'', ''10'', ''cop'', ''table:t, index:k(a)'', ''keep order'']]
      else [[rs]])"

definition toy ::
  "(toy_world, nat, string, nat, string, string, nat, int, int, unit) Engine" where
  "toy = \<lparr>
     StmtCtx = (\<lambda>se w. (0, w)),
     GetWarnings = (\<lambda>c w. (warnings w, w)),
     AppendError = (\<lambda>c er w. w\<lparr>errs := errs w @ [er]\<rparr>),
     AppendWarnings = (\<lambda>c ws w. w\<lparr>warnings := warnings w @ ws\<rparr>),
     Parse = (\<lambda>se sql w.
       if sql = ''syntax'' then (([], Some (TError 1064)), w)
       else ((split_stmts [] sql, None),
             w\<lparr>warnings := warnings w @ (if CHR ''!'' \<in> set sql then [''parser warning''] else [])\<rparr>)),
     ExecuteStmt = (\<lambda>se stmt w.
       if stmt = ''fail'' then ((None, Some (WithMessage ''exec'' (TError 1146))), w\<lparr>warnings := [], errs := []\<rparr>)
       else ((Some stmt, None), w\<lparr>warnings := [], errs := []\<rparr>)),
     PrepareStmt = (\<lambda>se sql w.
       if sql = ''syntax'' then ((0, Some (TError 1064)), w)
       else ((last_stmtID w + 1, None),
             w\<lparr>prepared := prepared w @ [(last_stmtID w + 1, sql)], last_stmtID := last_stmtID w + 1\<rparr>)),
     NewDatum = (\<lambda>a. a),
     ExecutePreparedStmt = (\<lambda>se sid ps w.
       case map_of (prepared w) sid of
         None \<Rightarrow> ((None, Some (Opaque ''no statement'')), w)
       | Some sql \<Rightarrow>
           if sql = ''fail ?'' then ((None, Some (TError 1146)), w)
           else ((Some sql, None), w)),
     DropPreparedStmt = (\<lambda>se sid w.
       if map_of (prepared w) sid = Some ''keep ?'' then (Some (Opaque ''drop failed''), w)
       else (None, w\<lparr>prepared := filter (\<lambda>p. fst p \<noteq> sid) (prepared w)\<rparr>)),
     CreateSession4Test = (\<lambda>st w. ((Some (sessions w), None), w\<lparr>sessions := sessions w + 1\<rparr>)),
     SetConnectionID = (\<lambda>se cid w. w\<lparr>conn_ids := conn_ids w @ [(se, cid)]\<rparr>),
     GetRows4Test = (\<lambda>se rs w.
       (if rs = ''midstream'' then Some (Opaque ''row failed'') else None, w)),
     Close = (\<lambda>rs w.
       (if rs = ''unclosable'' then Some (Opaque ''close failed'') else None, w)),
     ResultSetToStringSlice = (\<lambda>se rs w. ((toy_rows rs, None), w)),
     ToSQLError = (\<lambda>t. \<lparr>Code = of_nat t, Message = []\<rparr>),
     Sprint_args = (\<lambda>args. ''[]'') \<rparr>"

type_synonym toy_event = "(nat, string, nat, string, string, nat, int, unit) event"

definition toy_world0 :: toy_world where
  "toy_world0 = \<lparr>warnings = [], errs = [], prepared = [], last_stmtID = 0, sessions = 1, conn_ids = []\<rparr>"

definition toy_tk :: "(unit, nat) TestKit" where
  "toy_tk = \<lparr>store = (), session = Some 0\<rparr>"

section \<open>Properties\<close>

subsection \<open>Running the small engine\<close>

lemma toy_simps:
  "StmtCtx toy se w = (0, w)"
  "GetWarnings toy c w = (warnings w, w)"
  "AppendError toy c er w = w\<lparr>errs := errs w @ [er]\<rparr>"
  "AppendWarnings toy c ws w = w\<lparr>warnings := warnings w @ ws\<rparr>"
  "Parse toy se sql w =
     (if sql = ''syntax'' then (([], Some (TError 1064)), w)
      else ((split_stmts [] sql, None),
            w\<lparr>warnings := warnings w @ (if CHR ''!'' \<in> set sql then [''parser warning''] else [])\<rparr>))"
  "ExecuteStmt toy se stmt w =
     (if stmt = ''fail'' then ((None, Some (WithMessage ''exec'' (TError 1146))), w\<lparr>warnings := [], errs := []\<rparr>)
      else ((Some stmt, None), w\<lparr>warnings := [], errs := []\<rparr>))"
  "PrepareStmt toy se sql w =
     (if sql = ''syntax'' then ((0, Some (TError 1064)), w)
      else ((last_stmtID w + 1, None),
            w\<lparr>prepared := prepared w @ [(last_stmtID w + 1, sql)], last_stmtID := last_stmtID w + 1\<rparr>))"
  "NewDatum toy a = a"
  "ExecutePreparedStmt toy se sid ps w =
     (case map_of (prepared w) sid of
        None \<Rightarrow> ((None, Some (Opaque ''no statement'')), w)
      | Some sql \<Rightarrow>
          if sql = ''fail ?'' then ((None, Some (TError 1146)), w)
          else ((Some sql, None), w))"
  "DropPreparedStmt toy se sid w =
     (if map_of (prepared w) sid = Some ''keep ?'' then (Some (Opaque ''drop failed''), w)
      else (None, w\<lparr>prepared := filter (\<lambda>p. fst p \<noteq> sid) (prepared w)\<rparr>))"
  "CreateSession4Test toy st w = ((Some (sessions w), None), w\<lparr>sessions := sessions w + 1\<rparr>)"
  "SetConnectionID toy se cid w = w\<lparr>conn_ids := conn_ids w @ [(se, cid)]\<rparr>"
  "GetRows4Test toy so rs w = (if rs = ''midstream'' then Some (Opaque ''row failed'') else None, w)"
  "Close toy rs w = (if rs = ''unclosable'' then Some (Opaque ''close failed'') else None, w)"
  "ResultSetToStringSlice toy so rs w = ((toy_rows rs, None), w)"
  "ToSQLError toy t = \<lparr>Code = of_nat t, Message = []\<rparr>"
  "Sprint_args toy args = ''[]''"
  by (simp_all add: toy_def)

lemma toy_Exec_fail:
  "Exec toy toy_tk ''fail'' [] toy_world0 =
     (Returned (None, Some (WithStack (WithMessage ''exec'' (TError 1146)))),
      toy_world0\<lparr>errs := [WithMessage ''exec'' (TError 1146)]\<rparr>)"
  by (simp add: Exec_def toy_simps toy_tk_def toy_world0_def errors_Trace_def)

subsection \<open>The log of a run of Exec\<close>

lemma spy_simps:
  "StmtCtx (spy C) se (e, l) = (case StmtCtx C se e of (c, e') \<Rightarrow> (c, (e', l @ [EvStmtCtx se c])))"
  "GetWarnings (spy C) c (e, l) = (case GetWarnings C c e of (ws, e') \<Rightarrow> (ws, (e', l @ [EvGetWarnings c ws])))"
  "AppendError (spy C) c er (e, l) = (AppendError C c er e, l @ [EvAppendError c er])"
  "AppendWarnings (spy C) c ws (e, l) = (AppendWarnings C c ws e, l @ [EvAppendWarnings c ws])"
  "Parse (spy C) se sql (e, l) =
     (case Parse C se sql e of ((stmts, err), e') \<Rightarrow> ((stmts, err), (e', l @ [EvParse se sql stmts err])))"
  "ExecuteStmt (spy C) se stmt (e, l) =
     (case ExecuteStmt C se stmt e of ((rs, err), e') \<Rightarrow> ((rs, err), (e', l @ [EvExecuteStmt se stmt rs err])))"
  "PrepareStmt (spy C) se sql (e, l) =
     (case PrepareStmt C se sql e of ((sid, err), e') \<Rightarrow> ((sid, err), (e', l @ [EvPrepareStmt se sql sid err])))"
  "NewDatum (spy C) = NewDatum C"
  "ExecutePreparedStmt (spy C) se sid ps (e, l) =
     (case ExecutePreparedStmt C se sid ps e of
        ((rs, err), e') \<Rightarrow> ((rs, err), (e', l @ [EvExecutePreparedStmt se sid ps rs err])))"
  "DropPreparedStmt (spy C) se sid (e, l) =
     (case DropPreparedStmt C se sid e of (err, e') \<Rightarrow> (err, (e', l @ [EvDropPreparedStmt se sid err])))"
  "CreateSession4Test (spy C) st (e, l) =
     (case CreateSession4Test C st e of
        ((h, err), e') \<Rightarrow> ((h, err), (e', l @ [EvCreateSession4Test st h err])))"
  "SetConnectionID (spy C) se cid (e, l) = (SetConnectionID C se cid e, l @ [EvSetConnectionID se cid])"
  "GetRows4Test (spy C) so rs (e, l) =
     (case GetRows4Test C so rs e of (err, e') \<Rightarrow> (err, (e', l @ [EvGetRows4Test so rs err])))"
  "Close (spy C) rs (e, l) = (case Close C rs e of (err, e') \<Rightarrow> (err, (e', l @ [EvClose rs err])))"
  "ResultSetToStringSlice (spy C) so rs (e, l) =
     (case ResultSetToStringSlice C so rs e of
        ((rws, err), e') \<Rightarrow> ((rws, err), (e', l @ [EvResultSetToStringSlice so rs rws err])))"
  "ToSQLError (spy C) = ToSQLError C"
  "Sprint_args (spy C) = Sprint_args C"
  by (simp_all add: spy_def split: prod.splits)

lemma ExecuteStmt_events_simps:
  "ExecuteStmt_events se [] res = []"
  "ExecuteStmt_events se stmts [] = []"
  "ExecuteStmt_events se (stmt # stmts) ((rs, err) # res) =
     EvExecuteStmt se stmt rs err # ExecuteStmt_events se stmts res"
  by (simp_all add: ExecuteStmt_events_def)

lemma Exec_loop_spy:
  assumes "Exec_loop (spy C) se stmts i rs0 (e, l) = (r, (e', l'))"
  shows "(\<exists>res rs. r = Inr rs \<and> length res = length stmts \<and> (\<forall>x\<in>set res. snd x = None)
            \<and> l' = l @ ExecuteStmt_events se stmts res
            \<and> rs = (if i = 0 then (case res of [] \<Rightarrow> rs0 | x # xs \<Rightarrow> fst x) else rs0))
       \<or> (\<exists>res rsk er c. r = Inl (None, Some (errors_Trace er)) \<and> length res < length stmts
            \<and> (\<forall>x\<in>set res. snd x = None)
            \<and> l' = l @ ExecuteStmt_events se (take (length res) stmts) res
                      @ [EvExecuteStmt se (stmts ! length res) rsk (Some er), EvStmtCtx se c, EvAppendError c er])"
  using assms
proof (induction stmts arbitrary: i rs0 e l)
  case Nil
  then show ?case by (simp add: ExecuteStmt_events_simps)
next
  case (Cons stmt stmts)
  obtain rs err e1 where ex: "ExecuteStmt C se stmt e = ((rs, err), e1)"
    by (metis surj_pair)
  show ?case
  proof (cases err)
    case (Some er)
    obtain c e2 where sc: "StmtCtx C se e1 = (c, e2)" by (metis surj_pair)
    from Cons.prems ex Some sc
    have "r = Inl (None, Some (errors_Trace er))"
      and "l' = l @ [EvExecuteStmt se stmt rs (Some er), EvStmtCtx se c, EvAppendError c er]"
      by (auto simp: spy_simps Let_def)
    then show ?thesis
      apply -
      apply (rule disjI2)
      apply (rule exI [where x = "[]"])
      apply (rule exI [where x = rs])
      apply (rule exI [where x = er])
      apply (rule exI [where x = c])
      apply (simp add: ExecuteStmt_events_simps)
      done
  next
    case None
    let ?rs0 = "if i = 0 then rs else rs0"
    from Cons.prems ex None
    have rec: "Exec_loop (spy C) se stmts (i + 1) ?rs0 (e1, l @ [EvExecuteStmt se stmt rs None]) = (r, (e', l'))"
      by (simp add: spy_simps Let_def)
    from Cons.IH [OF rec]
    show ?thesis
    proof (elim disjE exE conjE)
      fix res rs'
      assume a: "r = Inr rs'" "length res = length stmts" "\<forall>x\<in>set res. snd x = None"
        "l' = (l @ [EvExecuteStmt se stmt rs None]) @ ExecuteStmt_events se stmts res"
        "rs' = (if i + 1 = 0 then case res of [] \<Rightarrow> ?rs0 | x # xs \<Rightarrow> fst x else ?rs0)"
      show ?thesis
        apply (rule disjI1)
        apply (rule exI [where x = "(rs, None) # res"])
        apply (rule exI [where x = rs'])
        using a apply (simp add: ExecuteStmt_events_simps)
        done
    next
      fix res rsk er c
      assume a: "r = Inl (None, Some (errors_Trace er))" "length res < length stmts"
        "\<forall>x\<in>set res. snd x = None"
        "l' = (l @ [EvExecuteStmt se stmt rs None]) @ ExecuteStmt_events se (take (length res) stmts) res
               @ [EvExecuteStmt se (stmts ! length res) rsk (Some er), EvStmtCtx se c, EvAppendError c er]"
      show ?thesis
        apply (rule disjI2)
        apply (rule exI [where x = "(rs, None) # res"])
        apply (rule exI [where x = rsk])
        apply (rule exI [where x = er])
        apply (rule exI [where x = c])
        using a apply (simp add: ExecuteStmt_events_simps)
        done
    qed
  qed
qed


lemma Exec_noargs_spy:
  assumes run: "Exec (spy C) tk sql [] (e, l) = (Returned (rs, err), (e', l'))"
  shows "\<exists>se c prev stmts. session tk = Some se \<and>
     ((\<exists>er. l' = l @ [EvStmtCtx se c, EvGetWarnings c prev, EvParse se sql stmts (Some er)]
          \<and> rs = None \<and> err = Some (errors_Trace er))
    \<or> (\<exists>warns res rsk er c'. length prev \<le> length warns \<and> length res < length stmts
          \<and> (\<forall>x\<in>set res. snd x = None)
          \<and> l' = l @ [EvStmtCtx se c, EvGetWarnings c prev, EvParse se sql stmts None, EvGetWarnings c warns]
                    @ ExecuteStmt_events se (take (length res) stmts) res
                    @ [EvExecuteStmt se (stmts ! length res) rsk (Some er), EvStmtCtx se c', EvAppendError c' er]
          \<and> rs = None \<and> err = Some (errors_Trace er))
    \<or> (\<exists>warns res. length prev \<le> length warns \<and> length res = length stmts
          \<and> (\<forall>x\<in>set res. snd x = None)
          \<and> drop (length prev) warns = []
          \<and> l' = l @ [EvStmtCtx se c, EvGetWarnings c prev, EvParse se sql stmts None, EvGetWarnings c warns]
                    @ ExecuteStmt_events se stmts res
          \<and> rs = (case res of [] \<Rightarrow> None | x # xs \<Rightarrow> fst x) \<and> err = None)
    \<or> (\<exists>warns res c'. length prev \<le> length warns \<and> length res = length stmts
          \<and> (\<forall>x\<in>set res. snd x = None)
          \<and> drop (length prev) warns \<noteq> []
          \<and> l' = l @ [EvStmtCtx se c, EvGetWarnings c prev, EvParse se sql stmts None, EvGetWarnings c warns]
                    @ ExecuteStmt_events se stmts res
                    @ [EvStmtCtx se c', EvAppendWarnings c' (drop (length prev) warns)]
          \<and> rs = (case res of [] \<Rightarrow> None | x # xs \<Rightarrow> fst x) \<and> err = None))"
proof -
  from run obtain se where se: "session tk = Some se"
    by (auto simp: Exec_def split: option.splits)
  obtain c e1 where sc: "StmtCtx C se e = (c, e1)" by (metis surj_pair)
  obtain prev e2 where gw: "GetWarnings C c e1 = (prev, e2)" by (metis surj_pair)
  obtain stmts perr e3 where pa: "Parse C se sql e2 = ((stmts, perr), e3)" by (metis surj_pair)
  show ?thesis
  proof (cases perr)
    case (Some er)
    with run se sc gw pa
    have "l' = l @ [EvStmtCtx se c, EvGetWarnings c prev, EvParse se sql stmts (Some er)]
          \<and> rs = None \<and> err = Some (errors_Trace er)"
      by (auto simp: Exec_def spy_simps Let_def)
    with se show ?thesis by blast
  next
    case None
    obtain warns e4 where gw2: "GetWarnings C c e3 = (warns, e4)" by (metis surj_pair)
    let ?l4 = "l @ [EvStmtCtx se c, EvGetWarnings c prev, EvParse se sql stmts None, EvGetWarnings c warns]"
    obtain r e5 l5 where lp: "Exec_loop (spy C) se stmts 0 None (e4, ?l4) = (r, (e5, l5))"
      by (metis surj_pair)
    from run se sc gw pa None gw2 have len: "length prev \<le> length warns"
      by (auto simp: Exec_def spy_simps Let_def split: if_splits)
    from run se sc gw pa None gw2 len lp
    have rest: "(case r of
                   Inl ret \<Rightarrow> (Returned ret, (e5, l5))
                 | Inr rs0 \<Rightarrow>
                     if drop (length prev) warns \<noteq> [] then
                       (case StmtCtx C se e5 of
                          (c', e6) \<Rightarrow> (Returned (rs0, None),
                             (AppendWarnings C c' (drop (length prev) warns) e6,
                              l5 @ [EvStmtCtx se c', EvAppendWarnings c' (drop (length prev) warns)])))
                     else (Returned (rs0, None), (e5, l5)))
                = (Returned (rs, err), (e', l'))"
      by (auto simp: Exec_def spy_simps Let_def split: sum.splits prod.splits if_splits)
    from Exec_loop_spy [OF lp]
    show ?thesis
    proof (elim disjE exE conjE)
      fix res rs0
      assume a: "r = Inr rs0" "length res = length stmts" "\<forall>x\<in>set res. snd x = None"
        "l5 = ?l4 @ ExecuteStmt_events se stmts res"
        "rs0 = (if (0::nat) = 0 then case res of [] \<Rightarrow> None | x # xs \<Rightarrow> fst x else None)"
      show ?thesis
      proof (cases "drop (length prev) warns = []")
        case True
        with rest a have "l' = l @ [EvStmtCtx se c, EvGetWarnings c prev, EvParse se sql stmts None, EvGetWarnings c warns]
                    @ ExecuteStmt_events se stmts res
            \<and> rs = (case res of [] \<Rightarrow> None | x # xs \<Rightarrow> fst x) \<and> err = None"
          by auto
        with se len a(2,3) True show ?thesis by blast
      next
        case False
        obtain c' e6 where sc': "StmtCtx C se e5 = (c', e6)" by (metis surj_pair)
        with rest a False have "l' = l @ [EvStmtCtx se c, EvGetWarnings c prev, EvParse se sql stmts None, EvGetWarnings c warns]
              @ ExecuteStmt_events se stmts res
              @ [EvStmtCtx se c', EvAppendWarnings c' (drop (length prev) warns)]
            \<and> rs = (case res of [] \<Rightarrow> None | x # xs \<Rightarrow> fst x) \<and> err = None"
          by auto
        with se len a(2,3) False show ?thesis by blast
      qed
    next
      fix res rsk er c'
      assume a: "r = Inl (None, Some (errors_Trace er))" "length res < length stmts"
        "\<forall>x\<in>set res. snd x = None"
        "l5 = ?l4 @ ExecuteStmt_events se (take (length res) stmts) res
               @ [EvExecuteStmt se (stmts ! length res) rsk (Some er), EvStmtCtx se c', EvAppendError c' er]"
      with rest have "l' = l @ [EvStmtCtx se c, EvGetWarnings c prev, EvParse se sql stmts None, EvGetWarnings c warns]
               @ ExecuteStmt_events se (take (length res) stmts) res
               @ [EvExecuteStmt se (stmts ! length res) rsk (Some er), EvStmtCtx se c', EvAppendError c' er]
            \<and> rs = None \<and> err = Some (errors_Trace er)"
        by auto
      with se len a(2,3) show ?thesis by blast
    qed
  qed
qed

lemma ExecuteStmt_events_is:
  "ev \<in> set (ExecuteStmt_events se stmts res) \<Longrightarrow>
     \<exists>stmt rs err. ev = EvExecuteStmt se stmt rs err \<and> (rs, err) \<in> set res"
  by (auto simp: ExecuteStmt_events_def in_set_zip) (metis nth_mem)

lemma filter_ExecuteStmt_events:
  "filter is_ExecuteStmt (ExecuteStmt_events se stmts res) = ExecuteStmt_events se stmts res"
  by (rule filter_True) (auto dest: ExecuteStmt_events_is)

lemma ExecuteStmt_events_snoc:
  assumes "length res < length stmts"
  shows "ExecuteStmt_events se (take (Suc (length res)) stmts) (res @ [(rs, err)]) =
           ExecuteStmt_events se (take (length res) stmts) res @ [EvExecuteStmt se (stmts ! length res) rs err]"
  using assms by (simp add: ExecuteStmt_events_def take_Suc_conv_app_nth)

lemma Exec_noargs_spy_not_Returned:
  assumes run: "Exec (spy C) tk sql [] (e, l) = (out, (e', l'))"
    and nr: "out = Panic \<or> out = FailNow"
  shows "filter is_ExecuteStmt l' = filter is_ExecuteStmt l"
proof (cases "session tk")
  case None
  with run show ?thesis by (simp add: Exec_def)
next
  case (Some se)
  obtain c e1 where sc: "StmtCtx C se e = (c, e1)" by (metis surj_pair)
  obtain prev e2 where gw: "GetWarnings C c e1 = (prev, e2)" by (metis surj_pair)
  obtain stmts perr e3 where pa: "Parse C se sql e2 = ((stmts, perr), e3)" by (metis surj_pair)
  obtain warns e4 where gw2: "GetWarnings C c e3 = (warns, e4)" by (metis surj_pair)
  from run nr Some sc gw pa gw2 show ?thesis
    by (auto simp: Exec_def spy_simps Let_def split: option.splits if_splits sum.splits prod.splits)
qed

lemma Exec_args_spy:
  assumes run: "Exec (spy C) tk sql args (e, l) = (out, (e', l'))"
      and args: "args \<noteq> []"
  shows "(session tk = None \<and> out = Panic \<and> l' = l)
       \<or> (\<exists>se sid. session tk = Some se \<and>
            ((\<exists>er. l' = l @ [EvPrepareStmt se sql sid (Some er)]
                 \<and> out = Returned (None, Some (errors_Trace er)))
           \<or> (\<exists>rs er. l' = l @ [EvPrepareStmt se sql sid None,
                                 EvExecutePreparedStmt se sid (map (NewDatum C) args) rs (Some er)]
                 \<and> out = Returned (None, Some (errors_Trace er)))
           \<or> (\<exists>rs er. l' = l @ [EvPrepareStmt se sql sid None,
                                 EvExecutePreparedStmt se sid (map (NewDatum C) args) rs None,
                                 EvDropPreparedStmt se sid (Some er)]
                 \<and> out = Returned (None, Some (errors_Trace er)))
           \<or> (\<exists>rs. l' = l @ [EvPrepareStmt se sql sid None,
                              EvExecutePreparedStmt se sid (map (NewDatum C) args) rs None,
                              EvDropPreparedStmt se sid None]
                 \<and> out = Returned (rs, None))))"
proof (cases "session tk")
  case None
  with run show ?thesis by (simp add: Exec_def)
next
  case (Some se)
  obtain sid perr e1 where pr: "PrepareStmt C se sql e = ((sid, perr), e1)" by (metis surj_pair)
  obtain rs xerr e2 where ex: "ExecutePreparedStmt C se sid (map (NewDatum C) args) e1 = ((rs, xerr), e2)"
    by (metis surj_pair)
  obtain derr e3 where dr: "DropPreparedStmt C se sid e2 = (derr, e3)" by (metis surj_pair)
  from run args Some pr ex dr
  have "(\<exists>er. l' = l @ [EvPrepareStmt se sql sid (Some er)]
                 \<and> out = Returned (None, Some (errors_Trace er)))
           \<or> (\<exists>rs er. l' = l @ [EvPrepareStmt se sql sid None,
                                 EvExecutePreparedStmt se sid (map (NewDatum C) args) rs (Some er)]
                 \<and> out = Returned (None, Some (errors_Trace er)))
           \<or> (\<exists>rs er. l' = l @ [EvPrepareStmt se sql sid None,
                                 EvExecutePreparedStmt se sid (map (NewDatum C) args) rs None,
                                 EvDropPreparedStmt se sid (Some er)]
                 \<and> out = Returned (None, Some (errors_Trace er)))
           \<or> (\<exists>rs. l' = l @ [EvPrepareStmt se sql sid None,
                              EvExecutePreparedStmt se sid (map (NewDatum C) args) rs None,
                              EvDropPreparedStmt se sid None]
                 \<and> out = Returned (rs, None))"
    by (cases perr; cases xerr; cases derr) (auto simp: Exec_def spy_simps Let_def)
  with Some show ?thesis by blast
qed

subsection \<open>Runs of the small engine, observed\<close>

lemma toy_run_batch_fail:
  "Exec (spy toy) toy_tk ''a!;fail;b'' [] (toy_world0, []) =
     (Returned (None, Some (WithStack (WithMessage ''exec'' (TError 1146)))),
      (toy_world0\<lparr>errs := [WithMessage ''exec'' (TError 1146)]\<rparr>,
       [EvStmtCtx 0 0, EvGetWarnings 0 [],
        EvParse 0 ''a!;fail;b'' [''a!'', ''fail'', ''b''] None,
        EvGetWarnings 0 [''parser warning''],
        EvExecuteStmt 0 ''a!'' (Some ''a!'') None,
        EvExecuteStmt 0 ''fail'' None (Some (WithMessage ''exec'' (TError 1146))),
        EvStmtCtx 0 0, EvAppendError 0 (WithMessage ''exec'' (TError 1146))]))"
  by (simp add: Exec_def spy_simps toy_simps toy_tk_def toy_world0_def errors_Trace_def)

lemma toy_run_batch_ok:
  "Exec (spy toy) toy_tk ''a!;b'' [] (toy_world0, []) =
     (Returned (Some ''a!'', None),
      (toy_world0\<lparr>warnings := [''parser warning'']\<rparr>,
       [EvStmtCtx 0 0, EvGetWarnings 0 [],
        EvParse 0 ''a!;b'' [''a!'', ''b''] None,
        EvGetWarnings 0 [''parser warning''],
        EvExecuteStmt 0 ''a!'' (Some ''a!'') None,
        EvExecuteStmt 0 ''b'' (Some ''b'') None,
        EvStmtCtx 0 0, EvAppendWarnings 0 [''parser warning'']]))"
  by (simp add: Exec_def spy_simps toy_simps toy_tk_def toy_world0_def errors_Trace_def)

lemma toy_run_prepared_fail:
  "Exec (spy toy) toy_tk ''fail ?'' [1] (toy_world0, []) =
     (Returned (None, Some (WithStack (TError 1146))),
      (toy_world0\<lparr>prepared := [(1, ''fail ?'')], last_stmtID := 1\<rparr>,
       [EvPrepareStmt 0 ''fail ?'' 1 None,
        EvExecutePreparedStmt 0 1 [1] None (Some (TError 1146))]))"
  by (simp add: Exec_def spy_simps toy_simps toy_tk_def toy_world0_def errors_Trace_def)

lemma toy_run_prepared_keep:
  "Exec (spy toy) toy_tk ''keep ?'' [1] (toy_world0, []) =
     (Returned (None, Some (WithStack (Opaque ''drop failed''))),
      (toy_world0\<lparr>prepared := [(1, ''keep ?'')], last_stmtID := 1\<rparr>,
       [EvPrepareStmt 0 ''keep ?'' 1 None,
        EvExecutePreparedStmt 0 1 [1] (Some ''keep ?'') None,
        EvDropPreparedStmt 0 1 (Some (Opaque ''drop failed''))]))"
  by (simp add: Exec_def spy_simps toy_simps toy_tk_def toy_world0_def errors_Trace_def)

lemma toy_run_prepared_ok:
  "Exec (spy toy) toy_tk ''q ?'' [1] (toy_world0, []) =
     (Returned (Some ''q ?'', None),
      (toy_world0\<lparr>prepared := [], last_stmtID := 1\<rparr>,
       [EvPrepareStmt 0 ''q ?'' 1 None,
        EvExecutePreparedStmt 0 1 [1] (Some ''q ?'') None,
        EvDropPreparedStmt 0 1 None]))"
  by (simp add: Exec_def spy_simps toy_simps toy_tk_def toy_world0_def errors_Trace_def)

lemma toy_run_midstream:
  "Exec (spy toy) toy_tk ''midstream'' [] (toy_world0, []) =
     (Returned (Some ''midstream'', None),
      (toy_world0,
       [EvStmtCtx 0 0, EvGetWarnings 0 [],
        EvParse 0 ''midstream'' [''midstream''] None,
        EvGetWarnings 0 [],
        EvExecuteStmt 0 ''midstream'' (Some ''midstream'') None]))"
  by (simp add: Exec_def spy_simps toy_simps toy_tk_def toy_world0_def errors_Trace_def)

lemma toy_run_unclosable:
  "Exec (spy toy) toy_tk ''unclosable'' [] (toy_world0, []) =
     (Returned (Some ''unclosable'', None),
      (toy_world0,
       [EvStmtCtx 0 0, EvGetWarnings 0 [],
        EvParse 0 ''unclosable'' [''unclosable''] None,
        EvGetWarnings 0 [],
        EvExecuteStmt 0 ''unclosable'' (Some ''unclosable'') None]))"
  by (simp add: Exec_def spy_simps toy_simps toy_tk_def toy_world0_def errors_Trace_def)

lemma toy_QueryToErr_midstream:
  "QueryToErr (spy toy) toy_tk ''midstream'' [] (toy_world0, []) =
     (Returned (Some (Opaque ''row failed'')),
      (toy_world0,
       [EvStmtCtx 0 0, EvGetWarnings 0 [],
        EvParse 0 ''midstream'' [''midstream''] None,
        EvGetWarnings 0 [],
        EvExecuteStmt 0 ''midstream'' (Some ''midstream'') None,
        EvGetRows4Test (Some 0) ''midstream'' (Some (Opaque ''row failed'')),
        EvClose ''midstream'' None]))"
  by (simp add: QueryToErr_def toy_run_midstream spy_simps toy_simps) (simp add: toy_tk_def)

subsection \<open>Errors keep their cause\<close>

lemma errors_Cause_Trace: "errors_Cause (errors_Trace e) = errors_Cause e"
  by (simp add: errors_Trace_def)

subsection \<open>MustGetErrCode\<close>

text \<open>
  C4. When \<^verbatim>\<open>Exec\<close> of the statement returns, \<^verbatim>\<open>MustGetErrCode\<close> passes (returns)
  exactly when \<^verbatim>\<open>Exec\<close> returned an error whose cause is the structured error type
  and whose SQL error code, extended to an \<^verbatim>\<open>int\<close>, is the expected code; in every
  other case (no error, a cause of another type, another code) it fails the test.
\<close>

theorem MustGetErrCode_passes_iff:
  assumes "fst (Exec C tk sql [] e) = Returned (rs, err)"
  shows "fst (MustGetErrCode C tk sql errCode e) =
           (if \<exists>er tErr. err = Some er \<and> errors_Cause er = TError tErr
                 \<and> errCode = ucast (Code (ToSQLError C tErr))
            then Returned () else FailNow)"
  using assms
  by (auto simp: MustGetErrCode_def Let_def split: prod.splits option.splits error.splits)

theorem MustGetErrCode_passes_iff_witness:
  "fst (MustGetErrCode toy toy_tk ''fail'' 1146 toy_world0) = Returned ()"
  using MustGetErrCode_passes_iff [of toy toy_tk "''fail''" toy_world0 None
      "Some (WithStack (WithMessage ''exec'' (TError 1146)))" 1146]
  by (simp add: toy_Exec_fail toy_simps)

subsection \<open>Exec on a batch of statements\<close>

text \<open>
  C2. A run of \<^verbatim>\<open>Exec\<close> with no arguments that returns, after \<^verbatim>\<open>Parse\<close> gave the
  statements \<open>stmts\<close>: the calls of \<^verbatim>\<open>ExecuteStmt\<close> are on the first \<open>length res\<close>
  statements, in order, with the results \<open>res\<close>, and every one but the last
  succeeded. If all of them succeeded, every statement was executed and \<^verbatim>\<open>Exec\<close> returns
  the record set of the first one and no error (no record set when the list is empty).
  Otherwise the failing statement is the last one executed and \<^verbatim>\<open>Exec\<close> returns its
  error, traced.
\<close>

theorem Exec_batch_in_order:
  assumes run: "Exec (spy C) tk sql [] (e, []) = (Returned (rs, err), (e', log))"
      and parsed: "EvParse se sql stmts None \<in> set log"
  shows "\<exists>res. length res \<le> length stmts
           \<and> filter is_ExecuteStmt log = ExecuteStmt_events se (take (length res) stmts) res
           \<and> (\<forall>x\<in>set (butlast res). snd x = None)
           \<and> (if \<forall>x\<in>set res. snd x = None
              then length res = length stmts \<and> err = None
                   \<and> rs = (case res of [] \<Rightarrow> None | x # xs \<Rightarrow> fst x)
              else \<exists>er. snd (last res) = Some er \<and> err = Some (errors_Trace er) \<and> rs = None)"
  using Exec_noargs_spy [OF run]
proof (elim exE conjE disjE)
  fix se' c prev stmts' er
  assume "log = [] @ [EvStmtCtx se' c, EvGetWarnings c prev, EvParse se' sql stmts' (Some er)]"
  with parsed show ?thesis by simp
next
  fix se' c prev stmts' warns res rsk er c'
  assume a: "length res < length stmts'" "\<forall>x\<in>set res. snd x = None"
    "log = [] @ [EvStmtCtx se' c, EvGetWarnings c prev, EvParse se' sql stmts' None, EvGetWarnings c warns]
             @ ExecuteStmt_events se' (take (length res) stmts') res
             @ [EvExecuteStmt se' (stmts' ! length res) rsk (Some er), EvStmtCtx se' c', EvAppendError c' er]"
    "rs = None" "err = Some (errors_Trace er)"
  from parsed a(3) have eq: "se' = se" "stmts' = stmts"
    by (auto dest: ExecuteStmt_events_is)
  let ?res = "res @ [(rsk, Some er)]"
  have "filter is_ExecuteStmt log = ExecuteStmt_events se (take (length ?res) stmts) ?res"
    using a(1,3) eq by (simp add: filter_ExecuteStmt_events ExecuteStmt_events_snoc)
  moreover have "length ?res \<le> length stmts" using a(1) eq by simp
  moreover have "\<forall>x\<in>set (butlast ?res). snd x = None" using a(2) by simp
  moreover have "\<not> (\<forall>x\<in>set ?res. snd x = None)" by simp
  moreover have "snd (last ?res) = Some er" by simp
  ultimately show ?thesis using a(4,5)
    by (intro exI [of _ ?res]) (simp only: if_False simp_thms, blast)
next
  fix se' c prev stmts' warns res
  assume a: "length res = length stmts'" "\<forall>x\<in>set res. snd x = None"
    "log = [] @ [EvStmtCtx se' c, EvGetWarnings c prev, EvParse se' sql stmts' None, EvGetWarnings c warns]
             @ ExecuteStmt_events se' stmts' res"
    "rs = (case res of [] \<Rightarrow> None | x # xs \<Rightarrow> fst x)" "err = None"
  from parsed a(3) have eq: "se' = se" "stmts' = stmts"
    by (auto dest: ExecuteStmt_events_is)
  have "filter is_ExecuteStmt log = ExecuteStmt_events se (take (length res) stmts) res"
    using a(1,3) eq by (simp add: filter_ExecuteStmt_events)
  moreover have "\<forall>x\<in>set (butlast res). snd x = None" using a(2) by (auto dest: in_set_butlastD)
  ultimately show ?thesis using a(1,2,4,5) eq
    by (intro exI [of _ res]) simp
next
  fix se' c prev stmts' warns res c'
  assume a: "length res = length stmts'" "\<forall>x\<in>set res. snd x = None"
    "log = [] @ [EvStmtCtx se' c, EvGetWarnings c prev, EvParse se' sql stmts' None, EvGetWarnings c warns]
             @ ExecuteStmt_events se' stmts' res
             @ [EvStmtCtx se' c', EvAppendWarnings c' (drop (length prev) warns)]"
    "rs = (case res of [] \<Rightarrow> None | x # xs \<Rightarrow> fst x)" "err = None"
  from parsed a(3) have eq: "se' = se" "stmts' = stmts"
    by (auto dest: ExecuteStmt_events_is)
  have "filter is_ExecuteStmt log = ExecuteStmt_events se (take (length res) stmts) res"
    using a(1,3) eq by (simp add: filter_ExecuteStmt_events)
  moreover have "\<forall>x\<in>set (butlast res). snd x = None" using a(2) by (auto dest: in_set_butlastD)
  ultimately show ?thesis using a(1,2,4,5) eq
    by (intro exI [of _ res]) simp
qed


theorem Exec_batch_in_order_witness:
  "\<exists>res. length res \<le> length [''a!'', ''fail'', ''b'']
     \<and> filter is_ExecuteStmt
          [EvStmtCtx 0 0, EvGetWarnings 0 [],
           EvParse 0 ''a!;fail;b'' [''a!'', ''fail'', ''b''] None,
           EvGetWarnings 0 [''parser warning''],
           EvExecuteStmt 0 ''a!'' (Some ''a!'') None,
           EvExecuteStmt 0 ''fail'' None (Some (WithMessage ''exec'' (TError 1146))),
           EvStmtCtx (0::nat) (0::nat), EvAppendError 0 (WithMessage ''exec'' (TError (1146::nat)))]
         = (ExecuteStmt_events 0 (take (length res) [''a!'', ''fail'', ''b'']) res
             :: (nat, string, nat, string, string, nat, int, unit) event list)
     \<and> (\<forall>x\<in>set (butlast res). snd x = None)
     \<and> (if \<forall>x\<in>set res. snd x = None
         then length res = length [''a!'', ''fail'', ''b'']
              \<and> Some (WithStack (WithMessage ''exec'' (TError (1146::nat)))) = None
              \<and> None = (case res of [] \<Rightarrow> None | x # xs \<Rightarrow> fst x)
         else \<exists>er. snd (last res) = Some er
              \<and> Some (WithStack (WithMessage ''exec'' (TError 1146))) = Some (errors_Trace er)
              \<and> (None :: string option) = None)"
  by (rule Exec_batch_in_order [OF toy_run_batch_fail]) simp

text \<open>
  C9. When a statement of the batch fails with the error \<open>er\<close>, the last calls of
  \<^verbatim>\<open>Exec\<close> are the failing \<^verbatim>\<open>ExecuteStmt\<close>, the read of the session's statement context
  and \<^verbatim>\<open>AppendError\<close> of \<open>er\<close> on that context; \<^verbatim>\<open>Exec\<close> returns a nil record set with the
  traced error, whatever the statements before produced.
\<close>

theorem Exec_batch_failure:
  assumes run: "Exec (spy C) tk sql [] (e, []) = (out, (e', log))"
      and failed: "EvExecuteStmt se stmt rsk (Some er) \<in> set log"
  shows "out = Returned (None, Some (errors_Trace er))
         \<and> (\<exists>pre c. log = pre @ [EvExecuteStmt se stmt rsk (Some er), EvStmtCtx se c, EvAppendError c er])"
proof (cases out)
  case (Returned x)
  obtain rs err where x: "x = (rs, err)" by (metis surj_pair)
  note run' = run [unfolded Returned x]
  from Exec_noargs_spy [OF run'] show ?thesis
  proof (elim exE conjE disjE)
    fix se' c prev stmts' er'
    assume "log = [] @ [EvStmtCtx se' c, EvGetWarnings c prev, EvParse se' sql stmts' (Some er')]"
    with failed show ?thesis by simp
  next
    fix se' c prev stmts' warns res rsk' er' c'
    assume a: "\<forall>x\<in>set res. snd x = None"
      "log = [] @ [EvStmtCtx se' c, EvGetWarnings c prev, EvParse se' sql stmts' None, EvGetWarnings c warns]
               @ ExecuteStmt_events se' (take (length res) stmts') res
               @ [EvExecuteStmt se' (stmts' ! length res) rsk' (Some er'), EvStmtCtx se' c', EvAppendError c' er']"
      "rs = None" "err = Some (errors_Trace er')"
    from failed a(1,2) have eq: "se' = se" "stmts' ! length res = stmt" "rsk' = rsk" "er' = er"
      by (auto dest!: ExecuteStmt_events_is)
    from a(2) eq have "log = ([EvStmtCtx se c, EvGetWarnings c prev, EvParse se sql stmts' None, EvGetWarnings c warns]
               @ ExecuteStmt_events se (take (length res) stmts') res)
               @ [EvExecuteStmt se stmt rsk (Some er), EvStmtCtx se c', EvAppendError c' er]"
      by simp
    then have "\<exists>pre c. log = pre @ [EvExecuteStmt se stmt rsk (Some er), EvStmtCtx se c, EvAppendError c er]"
      by blast
    with a(3,4) eq Returned x show ?thesis by simp
  next
    fix se' c prev stmts' warns res
    assume a: "\<forall>x\<in>set res. snd x = None"
      "log = [] @ [EvStmtCtx se' c, EvGetWarnings c prev, EvParse se' sql stmts' None, EvGetWarnings c warns]
               @ ExecuteStmt_events se' stmts' res"
    from failed a show ?thesis by (auto dest!: ExecuteStmt_events_is)
  next
    fix se' c prev stmts' warns res c'
    assume a: "\<forall>x\<in>set res. snd x = None"
      "log = [] @ [EvStmtCtx se' c, EvGetWarnings c prev, EvParse se' sql stmts' None, EvGetWarnings c warns]
               @ ExecuteStmt_events se' stmts' res
               @ [EvStmtCtx se' c', EvAppendWarnings c' (drop (length prev) warns)]"
    from failed a show ?thesis by (auto dest!: ExecuteStmt_events_is)
  qed
next
  case FailNow
  with Exec_noargs_spy_not_Returned [OF run] have "filter is_ExecuteStmt log = []" by simp
  moreover from failed have "EvExecuteStmt se stmt rsk (Some er) \<in> set (filter is_ExecuteStmt log)" by simp
  ultimately show ?thesis by simp
next
  case Panic
  with Exec_noargs_spy_not_Returned [OF run] have "filter is_ExecuteStmt log = []" by simp
  moreover from failed have "EvExecuteStmt se stmt rsk (Some er) \<in> set (filter is_ExecuteStmt log)" by simp
  ultimately show ?thesis by simp
qed

theorem Exec_batch_failure_witness:
  "(Returned (None, Some (WithStack (WithMessage ''exec'' (TError 1146))))
      :: (string option \<times> nat error option) outcome)
     = Returned (None, Some (errors_Trace (WithMessage ''exec'' (TError 1146))))
   \<and> (\<exists>pre c.
        [EvStmtCtx 0 0, EvGetWarnings 0 [],
         EvParse 0 ''a!;fail;b'' [''a!'', ''fail'', ''b''] None,
         EvGetWarnings 0 [''parser warning''],
         EvExecuteStmt 0 ''a!'' (Some ''a!'') None,
         EvExecuteStmt 0 ''fail'' None (Some (WithMessage ''exec'' (TError 1146))),
         EvStmtCtx (0::nat) (0::nat), EvAppendError 0 (WithMessage ''exec'' (TError (1146::nat)))]
        = pre @ [EvExecuteStmt 0 ''fail'' None (Some (WithMessage ''exec'' (TError 1146))),
                 EvStmtCtx 0 c, EvAppendError c (WithMessage ''exec'' (TError 1146))
                 :: (nat, string, nat, string, string, nat, int, unit) event])"
  by (rule Exec_batch_failure [OF toy_run_batch_fail]) simp

subsection \<open>Exec with arguments\<close>

text \<open>
  C10. A run of \<^verbatim>\<open>Exec\<close> with arguments in which \<^verbatim>\<open>ExecutePreparedStmt\<close> succeeded with
  the record set \<open>rs\<close> and \<^verbatim>\<open>DropPreparedStmt\<close> returned the error \<open>er\<close>: \<^verbatim>\<open>Exec\<close>
  returns a nil record set with the traced error, so \<open>rs\<close> does not reach the caller,
  and \<^verbatim>\<open>Exec\<close> makes three calls only (prepare, execute, drop), none of them a
  \<^verbatim>\<open>Close\<close>.
\<close>

theorem Exec_drop_error_hides_record_set:
  assumes run: "Exec (spy C) tk sql args (e, []) = (out, (e', log))"
      and args: "args \<noteq> []"
      and executed: "EvExecutePreparedStmt se sid ps rs None \<in> set log"
      and dropped: "EvDropPreparedStmt se' sid' (Some er) \<in> set log"
  shows "out = Returned (None, Some (errors_Trace er)) \<and> filter is_Close log = []
         \<and> log = [EvPrepareStmt se sql sid None,
                  EvExecutePreparedStmt se sid (map (NewDatum C) args) rs None,
                  EvDropPreparedStmt se sid (Some er)]"
  using Exec_args_spy [OF run args] executed dropped by auto

theorem Exec_drop_error_hides_record_set_witness:
  "(Returned (None, Some (WithStack (Opaque ''drop failed'')))
      :: (string option \<times> nat error option) outcome)
     = Returned (None, Some (errors_Trace (Opaque ''drop failed'')))
   \<and> filter is_Close
        [EvPrepareStmt 0 ''keep ?'' 1 None,
         EvExecutePreparedStmt 0 1 [1] (Some ''keep ?'') None,
         EvDropPreparedStmt 0 1 (Some (Opaque ''drop failed''))
         :: (nat, string, nat, string, string, nat, int, unit) event] = []
   \<and> [EvPrepareStmt 0 ''keep ?'' 1 None,
       EvExecutePreparedStmt 0 1 [1] (Some ''keep ?'') None,
       EvDropPreparedStmt 0 1 (Some (Opaque ''drop failed''))
       :: (nat, string, nat, string, string, nat, int, unit) event]
     = [EvPrepareStmt 0 ''keep ?'' 1 None,
        EvExecutePreparedStmt 0 1 (map (NewDatum toy) [1]) (Some ''keep ?'') None,
        EvDropPreparedStmt 0 1 (Some (Opaque ''drop failed''))]"
  by (rule Exec_drop_error_hides_record_set [OF toy_run_prepared_keep]) simp_all

text \<open>
  C1. The run of \<^verbatim>\<open>Exec\<close> on the small engine with one argument and a statement that
  prepares and then fails to execute: \<^verbatim>\<open>Exec\<close> returns the traced error after two calls,
  \<^verbatim>\<open>PrepareStmt\<close> and \<^verbatim>\<open>ExecutePreparedStmt\<close>. It never calls \<^verbatim>\<open>DropPreparedStmt\<close>,
  and the statement \<open>1\<close> is still prepared in the engine when \<^verbatim>\<open>Exec\<close> returns.
\<close>

theorem Exec_prepared_error_leaves_statement:
  "Exec (spy toy) toy_tk ''fail ?'' [1] (toy_world0, []) =
     (Returned (None, Some (WithStack (TError 1146))),
      (toy_world0\<lparr>prepared := [(1, ''fail ?'')], last_stmtID := 1\<rparr>,
       [EvPrepareStmt 0 ''fail ?'' 1 None,
        EvExecutePreparedStmt 0 1 [1] None (Some (TError 1146))]))
   \<and> filter is_DropPreparedStmt
        [EvPrepareStmt 0 ''fail ?'' 1 None,
         EvExecutePreparedStmt 0 1 [1] None (Some (TError 1146))
         :: (nat, string, nat, string, string, nat, int, unit) event] = []"
  by (simp add: toy_run_prepared_fail)

subsection \<open>Parse warnings\<close>

text \<open>
  C3, as amended. The parse warnings are the warnings read from the statement
  context after \<^verbatim>\<open>Parse\<close> beyond those read before it, \<open>drop (length prev) warns\<close>.
  When \<^verbatim>\<open>Exec\<close> with no arguments returns no error, every statement was executed and,
  if there are parse warnings, the last calls of \<^verbatim>\<open>Exec\<close> read the session's statement
  context and call \<^verbatim>\<open>AppendWarnings\<close> on it with exactly the parse warnings; with no
  parse warnings there is no further call. When \<^verbatim>\<open>Exec\<close> returns an error it never
  calls \<^verbatim>\<open>AppendWarnings\<close>.
\<close>

theorem Exec_parse_warnings_appended:
  assumes run: "Exec (spy C) tk sql [] (e, []) = (Returned (rs, err), (e', log))"
  shows "if err = None then
           (\<exists>se c prev stmts warns res. length res = length stmts \<and>
              (if drop (length prev) warns = [] then
                 log = [EvStmtCtx se c, EvGetWarnings c prev, EvParse se sql stmts None, EvGetWarnings c warns]
                         @ ExecuteStmt_events se stmts res
               else
                 (\<exists>c'. log = [EvStmtCtx se c, EvGetWarnings c prev, EvParse se sql stmts None, EvGetWarnings c warns]
                         @ ExecuteStmt_events se stmts res
                         @ [EvStmtCtx se c', EvAppendWarnings c' (drop (length prev) warns)])))
         else filter is_AppendWarnings log = []"
  using Exec_noargs_spy [OF run]
proof (elim exE conjE disjE)
  fix se c prev stmts er
  assume "log = [] @ [EvStmtCtx se c, EvGetWarnings c prev, EvParse se sql stmts (Some er)]"
    "err = Some (errors_Trace er)"
  then show ?thesis by simp
next
  fix se c prev stmts warns res rsk er c'
  assume a: "log = [] @ [EvStmtCtx se c, EvGetWarnings c prev, EvParse se sql stmts None, EvGetWarnings c warns]
               @ ExecuteStmt_events se (take (length res) stmts) res
               @ [EvExecuteStmt se (stmts ! length res) rsk (Some er), EvStmtCtx se c', EvAppendError c' er]"
    "err = Some (errors_Trace er)"
  have "filter is_AppendWarnings (ExecuteStmt_events se (take (length res) stmts) res) = []"
    by (auto simp: filter_empty_conv dest!: ExecuteStmt_events_is)
  with a show ?thesis by simp
next
  fix se c prev stmts warns res
  assume a: "length res = length stmts" "drop (length prev) warns = []"
    "log = [] @ [EvStmtCtx se c, EvGetWarnings c prev, EvParse se sql stmts None, EvGetWarnings c warns]
             @ ExecuteStmt_events se stmts res" "err = None"
  have "\<exists>se c prev stmts warns res. length res = length stmts \<and>
              (if drop (length prev) warns = [] then
                 log = [EvStmtCtx se c, EvGetWarnings c prev, EvParse se sql stmts None, EvGetWarnings c warns]
                         @ ExecuteStmt_events se stmts res
               else
                 (\<exists>c'. log = [EvStmtCtx se c, EvGetWarnings c prev, EvParse se sql stmts None, EvGetWarnings c warns]
                         @ ExecuteStmt_events se stmts res
                         @ [EvStmtCtx se c', EvAppendWarnings c' (drop (length prev) warns)]))"
    apply (rule exI [where x = se], rule exI [where x = c], rule exI [where x = prev])
    apply (rule exI [where x = stmts], rule exI [where x = warns], rule exI [where x = res])
    using a by simp
  with a(4) show ?thesis by simp
next
  fix se c prev stmts warns res c'
  assume a: "length res = length stmts" "drop (length prev) warns \<noteq> []"
    "log = [] @ [EvStmtCtx se c, EvGetWarnings c prev, EvParse se sql stmts None, EvGetWarnings c warns]
             @ ExecuteStmt_events se stmts res
             @ [EvStmtCtx se c', EvAppendWarnings c' (drop (length prev) warns)]" "err = None"
  have "\<exists>se c prev stmts warns res. length res = length stmts \<and>
              (if drop (length prev) warns = [] then
                 log = [EvStmtCtx se c, EvGetWarnings c prev, EvParse se sql stmts None, EvGetWarnings c warns]
                         @ ExecuteStmt_events se stmts res
               else
                 (\<exists>c'. log = [EvStmtCtx se c, EvGetWarnings c prev, EvParse se sql stmts None, EvGetWarnings c warns]
                         @ ExecuteStmt_events se stmts res
                         @ [EvStmtCtx se c', EvAppendWarnings c' (drop (length prev) warns)]))"
    apply (rule exI [where x = se], rule exI [where x = c], rule exI [where x = prev])
    apply (rule exI [where x = stmts], rule exI [where x = warns], rule exI [where x = res])
    using a by auto
  with a(4) show ?thesis by simp
qed


theorem Exec_parse_warnings_appended_witness:
  "if (None :: nat error option) = None then
     (\<exists>se c prev stmts warns res. length res = length stmts \<and>
        (if drop (length prev) warns = [] then
           ([EvStmtCtx 0 0, EvGetWarnings 0 [],
            EvParse 0 ''a!;b'' [''a!'', ''b''] None,
            EvGetWarnings 0 [''parser warning''],
            EvExecuteStmt 0 ''a!'' (Some ''a!'') None,
            EvExecuteStmt 0 ''b'' (Some ''b'') None,
            EvStmtCtx 0 0, EvAppendWarnings 0 [''parser warning'']] :: toy_event list)
           = [EvStmtCtx se c, EvGetWarnings c prev, EvParse se ''a!;b'' stmts None, EvGetWarnings c warns]
               @ ExecuteStmt_events se stmts res
         else
           (\<exists>c'.
              ([EvStmtCtx 0 0, EvGetWarnings 0 [],
            EvParse 0 ''a!;b'' [''a!'', ''b''] None,
            EvGetWarnings 0 [''parser warning''],
            EvExecuteStmt 0 ''a!'' (Some ''a!'') None,
            EvExecuteStmt 0 ''b'' (Some ''b'') None,
            EvStmtCtx 0 0, EvAppendWarnings 0 [''parser warning'']] :: toy_event list)
              = [EvStmtCtx se c, EvGetWarnings c prev, EvParse se ''a!;b'' stmts None, EvGetWarnings c warns]
                  @ ExecuteStmt_events se stmts res
                  @ [EvStmtCtx se c', EvAppendWarnings c' (drop (length prev) warns)])))
   else filter is_AppendWarnings
          ([EvStmtCtx 0 0, EvGetWarnings 0 [],
            EvParse 0 ''a!;b'' [''a!'', ''b''] None,
            EvGetWarnings 0 [''parser warning''],
            EvExecuteStmt 0 ''a!'' (Some ''a!'') None,
            EvExecuteStmt 0 ''b'' (Some ''b'') None,
            EvStmtCtx 0 0, EvAppendWarnings 0 [''parser warning'']] :: toy_event list) = []"
  by (rule Exec_parse_warnings_appended [OF toy_run_batch_ok])

text \<open>
  C3 as stated fails when a statement fails. On the small engine, \<^verbatim>\<open>Parse\<close> adds one
  warning (none before, \<open>''parser warning''\<close> after), the second statement fails, and
  when \<^verbatim>\<open>Exec\<close> returns the warning list of the session's statement context is empty:
  the statement started a fresh context and \<^verbatim>\<open>Exec\<close> returned from inside the loop.
\<close>

theorem Exec_parse_warnings_lost_on_failure:
  "Exec (spy toy) toy_tk ''a!;fail;b'' [] (toy_world0, []) =
     (Returned (None, Some (WithStack (WithMessage ''exec'' (TError 1146)))),
      (toy_world0\<lparr>errs := [WithMessage ''exec'' (TError 1146)]\<rparr>,
       [EvStmtCtx 0 0, EvGetWarnings 0 [],
        EvParse 0 ''a!;fail;b'' [''a!'', ''fail'', ''b''] None,
        EvGetWarnings 0 [''parser warning''],
        EvExecuteStmt 0 ''a!'' (Some ''a!'') None,
        EvExecuteStmt 0 ''fail'' None (Some (WithMessage ''exec'' (TError 1146))),
        EvStmtCtx 0 0, EvAppendError 0 (WithMessage ''exec'' (TError 1146))]))
   \<and> drop (length ([] :: string list)) [''parser warning''] = [''parser warning'']
   \<and> fst (GetWarnings toy (fst (StmtCtx toy 0 (toy_world0\<lparr>errs := [WithMessage ''exec'' (TError 1146)]\<rparr>)))
          (toy_world0\<lparr>errs := [WithMessage ''exec'' (TError 1146)]\<rparr>)) = []"
  by (intro conjI toy_run_batch_fail) (simp_all add: toy_simps toy_world0_def)

subsection \<open>QueryToErr\<close>

text \<open>
  C5, as amended. After \<^verbatim>\<open>Exec\<close> returned: \<^verbatim>\<open>QueryToErr\<close> fails the test, with no further
  call, when \<^verbatim>\<open>Exec\<close> returned an error or a nil record set. Otherwise it reads the rows
  of the record set (\<^verbatim>\<open>GetRows4Test\<close>) and closes it; when \<^verbatim>\<open>Close\<close> succeeds it returns
  exactly the error of reading the rows (nil when there was none), and when \<^verbatim>\<open>Close\<close>
  returns an error it fails the test.
\<close>

theorem QueryToErr_result:
  assumes ex: "Exec (spy C) tk sql args (e, []) = (Returned (res, err), (e1, l1))"
      and run: "QueryToErr (spy C) tk sql args (e, []) = (out, (e', log))"
  shows "if err \<noteq> None \<or> res = None then out = FailNow \<and> log = l1
         else (\<exists>rs resErr closeErr. res = Some rs
                 \<and> log = l1 @ [EvGetRows4Test (session tk) rs resErr, EvClose rs closeErr]
                 \<and> out = (if closeErr = None then Returned resErr else FailNow))"
proof (cases "err \<noteq> None \<or> res = None")
  case True
  with ex run show ?thesis
    by (auto simp: QueryToErr_def split: option.splits)
next
  case False
  then obtain rs where rs: "res = Some rs" "err = None" by auto
  obtain resErr e2 where gr: "GetRows4Test C (session tk) rs e1 = (resErr, e2)" by (metis surj_pair)
  obtain closeErr e3 where cl: "Close C rs e2 = (closeErr, e3)" by (metis surj_pair)
  from ex run rs gr cl
  have "log = l1 @ [EvGetRows4Test (session tk) rs resErr, EvClose rs closeErr]
        \<and> out = (if closeErr = None then Returned resErr else FailNow)"
    by (cases closeErr) (auto simp: QueryToErr_def spy_simps)
  with rs False show ?thesis by auto
qed

theorem QueryToErr_result_witness:
  "if (None :: nat error option) \<noteq> None \<or> Some ''midstream'' = None
   then (Returned (Some (Opaque ''row failed'')) :: nat error option outcome) = FailNow
        \<and> ([EvStmtCtx 0 0, EvGetWarnings 0 [],
             EvParse 0 ''midstream'' [''midstream''] None,
             EvGetWarnings 0 [],
             EvExecuteStmt 0 ''midstream'' (Some ''midstream'') None,
             EvGetRows4Test (Some 0) ''midstream'' (Some (Opaque ''row failed'')),
             EvClose ''midstream'' None] :: toy_event list)
           = [EvStmtCtx 0 0, EvGetWarnings 0 [],
              EvParse 0 ''midstream'' [''midstream''] None,
              EvGetWarnings 0 [],
              EvExecuteStmt 0 ''midstream'' (Some ''midstream'') None]
   else (\<exists>rs resErr closeErr. Some ''midstream'' = Some rs
           \<and> ([EvStmtCtx 0 0, EvGetWarnings 0 [],
                EvParse 0 ''midstream'' [''midstream''] None,
                EvGetWarnings 0 [],
                EvExecuteStmt 0 ''midstream'' (Some ''midstream'') None,
                EvGetRows4Test (Some 0) ''midstream'' (Some (Opaque ''row failed'')),
                EvClose ''midstream'' None] :: toy_event list)
              = [EvStmtCtx 0 0, EvGetWarnings 0 [],
                 EvParse 0 ''midstream'' [''midstream''] None,
                 EvGetWarnings 0 [],
                 EvExecuteStmt 0 ''midstream'' (Some ''midstream'') None]
                @ [EvGetRows4Test (session toy_tk) rs resErr, EvClose rs closeErr]
           \<and> Returned (Some (Opaque ''row failed'')) = (if closeErr = None then Returned resErr else FailNow))"
  by (rule QueryToErr_result [OF toy_run_midstream toy_QueryToErr_midstream])

text \<open>
  C5 as stated fails when the record set cannot be closed. On the small engine the
  statement \<open>''unclosable''\<close> executes with a record set and its rows are read with no
  error, but \<^verbatim>\<open>Close\<close> fails: \<^verbatim>\<open>QueryToErr\<close> fails the test and does not return nil.
\<close>

theorem QueryToErr_close_error_fails_test:
  "Exec (spy toy) toy_tk ''unclosable'' [] (toy_world0, []) =
     (Returned (Some ''unclosable'', None),
      (toy_world0,
       [EvStmtCtx 0 0, EvGetWarnings 0 [],
        EvParse 0 ''unclosable'' [''unclosable''] None,
        EvGetWarnings 0 [],
        EvExecuteStmt 0 ''unclosable'' (Some ''unclosable'') None]))
   \<and> QueryToErr (spy toy) toy_tk ''unclosable'' [] (toy_world0, []) =
     (FailNow,
      (toy_world0,
       [EvStmtCtx 0 0, EvGetWarnings 0 [],
        EvParse 0 ''unclosable'' [''unclosable''] None,
        EvGetWarnings 0 [],
        EvExecuteStmt 0 ''unclosable'' (Some ''unclosable'') None,
        EvGetRows4Test (Some 0) ''unclosable'' None,
        EvClose ''unclosable'' (Some (Opaque ''close failed''))]))"
  apply (rule conjI)
   apply (rule toy_run_unclosable)
  apply (simp add: QueryToErr_def toy_run_unclosable spy_simps toy_simps)
  apply (simp add: toy_tk_def)
  done

end
